theory Spec2Isabelle
  imports Main
begin

section \<open>The reporter facade \<open>QaseReporter\<close> and its collaborators\<close>

text \<open>
  The class \<open>QaseReporter\<close> owns at most two backend reporters (\<open>upstreamReporter\<close>,
  \<open>fallbackReporter\<close>), two flags (\<open>disabled\<close>, \<open>useFallback\<close>) and the promise of the
  pending \<open>startTestRun\<close>. Its methods mutate the object, the backends, the state file of
  \<open>StateManager\<close> and the logger. The embedding passes the object and the process-wide
  state explicitly, and every call on a collaborator is appended to a trace, in program
  order, so that "which call was made, and before which" is a property of a list.
  A call of a method runs to its end before the next one starts: the test runner issues
  its calls one after another, and the facade has no lock that would order anything else.
\<close>

subsection \<open>Values\<close>

text \<open>
  An error thrown in the source is either a \<open>DisabledException\<close> or any other error; the
  facade only tests \<open>error instanceof DisabledException\<close>.
\<close>

datatype error = DisabledException | Error string

text \<open>
  A \<open>Promise<void>\<close> is kept as the way it settles: \<open>await p\<close> continues after
  \<open>Fulfilled\<close> and throws \<open>e\<close> after \<open>Rejected e\<close>.
\<close>

datatype promise = Fulfilled | Rejected error

datatype TestStatusEnum = passed | failed | skipped | blocked | disabled_status | invalid

record TestResultType =
  title :: string
  execution_status :: TestStatusEnum

text \<open>
  Modelled from the spec: the declaration of \<open>ModeEnum\<close> (module \<open>./options\<close>) is not among
  the sources. The facade uses its three members \<open>testops\<close>, \<open>report\<close> and \<open>off\<close>; at run
  time they are strings, and the facade tests them for truthiness (\<open>mode || ModeEnum.off\<close>),
  so a mode is a string here and the members are three distinct non-empty strings.
\<close>

definition ModeEnum_testops :: string where "ModeEnum_testops = ''testops''"
definition ModeEnum_report :: string where "ModeEnum_report = ''report''"
definition ModeEnum_off :: string where "ModeEnum_off = ''off''"

text \<open>
  The fields of \<open>ConfigType & OptionsType\<close> that the facade itself reads. Everything else
  in the options is only handed on to the constructors of the backends, which are
  parameters below. \<open>undefined\<close> is \<open>None\<close>.
\<close>

record OptionsType =
  mode :: "string option"
  fallback :: "string option"
  captureLogs :: "bool option"
  testops_api_token :: "string option"
  testops_project :: "string option"

text \<open>JavaScript truthiness of an optional string, and of an optional number.\<close>

definition truthy :: "string option \<Rightarrow> bool" where
  "truthy s = (case s of None \<Rightarrow> False | Some v \<Rightarrow> v \<noteq> [])"

definition truthy_num :: "int option \<Rightarrow> bool" where
  "truthy_num n = (case n of None \<Rightarrow> False | Some v \<Rightarrow> v \<noteq> 0)"

text \<open>\<open>m as ModeEnum || ModeEnum.off\<close>\<close>

definition mode_or_off :: "string option \<Rightarrow> string" where
  "mode_or_off m = (case m of None \<Rightarrow> ModeEnum_off | Some v \<Rightarrow> if v = [] then ModeEnum_off else v)"

subsection \<open>Messages\<close>

text \<open>
  The texts of the log lines and of the errors that \<open>createReporter\<close> throws (shortened to
  their fixed part), by name. \<open>msg_no_state\<close> and \<open>msg_backend_down\<close> are the errors of
  the modelled state file and of the stub backends.
\<close>

definition msg_config :: string where "msg_config = ''Config: ''"
definition msg_create_upstream :: string where "msg_create_upstream = ''Unable to create upstream reporter:''"
definition msg_create_fallback :: string where "msg_create_fallback = ''Unable to create fallback reporter:''"
definition msg_send_upstream :: string where "msg_send_upstream = ''Unable to send the results to the upstream reporter:''"
definition msg_send_fallback :: string where "msg_send_fallback = ''Unable to send the results to the fallback reporter:''"
definition msg_complete_upstream :: string where "msg_complete_upstream = ''Unable to complete the run in the upstream reporter:''"
definition msg_complete_fallback :: string where "msg_complete_fallback = ''Unable to complete the run in the fallback reporter:''"
definition msg_starting :: string where "msg_starting = ''Starting test run''"
definition msg_start_upstream :: string where "msg_start_upstream = ''Unable to start test run in the upstream reporter: ''"
definition msg_start_fallback :: string where "msg_start_fallback = ''Unable to start test run in the fallback reporter: ''"
definition msg_add_upstream :: string where "msg_add_upstream = ''Unable to add the result to the upstream reporter:''"
definition msg_add_fallback :: string where "msg_add_fallback = ''Unable to add the result to the fallback reporter:''"
definition msg_publishing :: string where "msg_publishing = ''Publishing test run results''"
definition msg_publish_upstream :: string where "msg_publish_upstream = ''Unable to publish the run results to the upstream reporter:''"
definition msg_publish_fallback :: string where "msg_publish_fallback = ''Unable to publish the run results to the fallback reporter:''"
definition msg_token_required :: string where "msg_token_required = ''testops.api.token is required in testops mode''"
definition msg_project_required :: string where "msg_project_required = ''testops.project is required in testops mode''"
definition msg_unknown_mode :: string where "msg_unknown_mode = ''Unknown mode type''"
definition msg_no_state :: string where "msg_no_state = ''no state''"
definition msg_backend_down :: string where "msg_backend_down = ''backend is down''"

subsection \<open>The persisted run state\<close>

record StateModel =
  RunId :: "int option"
  Mode :: "string option"
  IsModeChanged :: "bool option"

text \<open>
  Modelled from the spec: the class \<open>StateManager\<close> (module \<open>./state/state\<close>) is not among
  the sources. It is the Run-State Store of the spec: one file-backed record, absent
  (\<open>None\<close>) or present. \<open>exists\<close>, \<open>read\<close> (fails if no record exists), \<open>write\<close> (full
  overwrite), \<open>setMode\<close> (sets \<open>Mode\<close> and \<open>IsModeChanged = true\<close>, leaves \<open>RunId\<close>
  untouched) and \<open>clear\<close> (deletes the record) follow the spec's words. The spec does not
  say what \<open>setMode\<close> does when no record exists; here it writes a record that has only the
  two fields it sets, and it never throws, as no operation of the facade may raise on a
  failure of coordination.
\<close>

type_synonym state_file = "StateModel option"

definition isStateExists :: "state_file \<Rightarrow> bool" where
  "isStateExists f = (f \<noteq> None)"

definition getState :: "state_file \<Rightarrow> error + StateModel" where
  "getState f = (case f of None \<Rightarrow> Inl (Error msg_no_state) | Some s \<Rightarrow> Inr s)"

definition setState :: "StateModel \<Rightarrow> state_file \<Rightarrow> state_file" where
  "setState s f = Some s"

definition setMode :: "string option \<Rightarrow> state_file \<Rightarrow> state_file" where
  "setMode m f =
     (let s = (case f of None \<Rightarrow> \<lparr>RunId = None, Mode = None, IsModeChanged = None\<rparr>
                        | Some s \<Rightarrow> s)
      in Some (s\<lparr>Mode := m, IsModeChanged := Some True\<rparr>))"

definition clearState :: "state_file \<Rightarrow> state_file" where
  "clearState f = None"

subsection \<open>The trace of calls on collaborators\<close>

datatype role = Upstream | Fallback

datatype backend_op =
    M_startTestRun
  | M_addTestResult TestResultType
  | M_sendResults
  | M_publish
  | M_complete
  | M_getTestResults
  | M_setTestResults "TestResultType list"

datatype state_call =
    S_isStateExists
  | S_getState
  | S_setState StateModel
  | S_setMode "string option"
  | S_clearState

datatype chalk = red | green | blueBright | grey | yellowBright

datatype event =
    BackendCall role backend_op
  | StateCall state_call
  | AwaitStartTestRunOperation
  | LogDebug string
  | LogError string
  | Log chalk string

subsection \<open>Process-wide state\<close>

text \<open>
  \<open>process.env\<close>, restricted to the two variables the constructor writes
  (\<open>EnvEnum.mode\<close> and \<open>EnvRunEnum.id\<close>; the run id is kept as the number it prints), the
  state file, and the trace.
\<close>

record process_env =
  env_mode :: "string option"
  env_run_id :: "int option"

record globals =
  stateFile :: state_file
  processEnv :: process_env
  trace :: "event list"

definition emit :: "event \<Rightarrow> globals \<Rightarrow> globals" where
  "emit e g = g\<lparr>trace := trace g @ [e]\<rparr>"

definition logError :: "string \<Rightarrow> globals \<Rightarrow> globals" where
  "logError msg g = emit (LogError msg) g"

definition logDebug :: "string \<Rightarrow> globals \<Rightarrow> globals" where
  "logDebug msg g = emit (LogDebug msg) g"

definition StateManager_setMode :: "string option \<Rightarrow> globals \<Rightarrow> globals" where
  "StateManager_setMode m g = emit (StateCall (S_setMode m)) (g\<lparr>stateFile := setMode m (stateFile g)\<rparr>)"

definition StateManager_setState :: "StateModel \<Rightarrow> globals \<Rightarrow> globals" where
  "StateManager_setState s g = emit (StateCall (S_setState s)) (g\<lparr>stateFile := setState s (stateFile g)\<rparr>)"

definition StateManager_clearState :: "globals \<Rightarrow> globals" where
  "StateManager_clearState g = emit (StateCall S_clearState) (g\<lparr>stateFile := clearState (stateFile g)\<rparr>)"

subsection \<open>The collaborators that are parameters\<close>

text \<open>
  \<open>'b\<close> is the state of a backend reporter (\<open>InternalReporterInterface\<close>: \<open>TestOpsReporter\<close>
  or \<open>ReportReporter\<close>, neither among the sources). Each operation that the facade awaits
  returns the error it throws, if any, and the backend's new state; a failing call may
  have changed the backend. \<open>startTestRun\<close> is called without \<open>await\<close>: it throws at once
  (\<open>Inl\<close>) or returns a promise. The two accessors of the buffer do not throw.
  \<open>composeOptions\<close> stands for \<open>composeOptions(options, envToConfig(envSchema(...)))\<close>, read
  from \<open>process.env\<close>; the two constructors stand for everything \<open>createReporter\<close> does
  after its own checks (\<open>createHeaders\<close>, \<open>new QaseApi\<close>, \<open>new TestOpsReporter\<close>; \<open>new
  FsWriter\<close>, \<open>new ReportReporter\<close>) and may throw.
\<close>

record 'b collaborators =
  composeOptions :: "OptionsType \<Rightarrow> process_env \<Rightarrow> OptionsType"
  newTestOpsReporter :: "OptionsType \<Rightarrow> error + 'b"
  newReportReporter :: "OptionsType \<Rightarrow> error + 'b"
  r_getTestResults :: "'b \<Rightarrow> TestResultType list"
  r_setTestResults :: "TestResultType list \<Rightarrow> 'b \<Rightarrow> 'b"
  r_startTestRun :: "'b \<Rightarrow> (error + promise) \<times> 'b"
  r_addTestResult :: "TestResultType \<Rightarrow> 'b \<Rightarrow> error option \<times> 'b"
  r_sendResults :: "'b \<Rightarrow> error option \<times> 'b"
  r_publish :: "'b \<Rightarrow> error option \<times> 'b"
  r_complete :: "'b \<Rightarrow> error option \<times> 'b"

subsection \<open>The object\<close>

record 'b QaseReporter =
  upstreamReporter :: "'b option"
  fallbackReporter :: "'b option"
  qr_captureLogs :: "bool option"
  disabled :: bool
  useFallback :: bool
  startTestRunOperation :: "promise option"
  options :: OptionsType

subsection \<open>\<open>createReporter\<close>\<close>

definition createReporter :: "'b collaborators \<Rightarrow> string \<Rightarrow> OptionsType \<Rightarrow> error + 'b" where
  "createReporter X m opts =
     (if m = ModeEnum_testops then
        (if \<not> truthy (testops_api_token opts) then
           Inl (Error msg_token_required)
         else if \<not> truthy (testops_project opts) then
           Inl (Error msg_project_required)
         else newTestOpsReporter X opts)
      else if m = ModeEnum_report then newReportReporter X opts
      else if m = ModeEnum_off then Inl DisabledException
      else Inl (Error msg_unknown_mode))"

subsection \<open>The constructor\<close>

text \<open>
  The second half of the constructor: the \<open>try\<close> around the creation of the fallback
  reporter, and the first write of the state file. The early \<open>return\<close> of the first half
  skips all of it.
\<close>

definition constructor_fallback :: "'b collaborators \<Rightarrow> 'b QaseReporter \<Rightarrow> globals \<Rightarrow> 'b QaseReporter \<times> globals" where
  "constructor_fallback X q g =
     (let composedOptions = options q;
          (q1, g1) =
            (case createReporter X (mode_or_off (fallback composedOptions)) composedOptions of
               Inr r \<Rightarrow> (q\<lparr>fallbackReporter := Some r\<rparr>, g)
             | Inl DisabledException \<Rightarrow>
                 (if useFallback q then q\<lparr>disabled := True\<rparr> else q, g)
             | Inl (Error e) \<Rightarrow>
                 (if useFallback q \<and> upstreamReporter q = None then q\<lparr>disabled := True\<rparr> else q,
                  logError msg_create_fallback g));
          g2 = emit (StateCall S_isStateExists) g1
      in if \<not> isStateExists (stateFile g2) then
           (let state = \<lparr>RunId = None,
                          Mode = (if useFallback q1 then fallback composedOptions
                                  else mode composedOptions),
                          IsModeChanged = None\<rparr>;
                state' = (if disabled q1 then state\<lparr>Mode := Some ModeEnum_off\<rparr> else state)
            in (q1, StateManager_setState state' g2))
         else (q1, g2))"

text \<open>
  The overrides read from an existing state file. \<open>getState\<close> is only called when the
  record exists, so its failure is not a branch of the constructor.
\<close>

definition apply_state_overrides :: "globals \<Rightarrow> globals" where
  "apply_state_overrides g0 =
     (let g1 = emit (StateCall S_isStateExists) g0
      in if isStateExists (stateFile g1) then
           (case getState (stateFile g1) of
              Inl e \<Rightarrow> g1
            | Inr state \<Rightarrow>
                (let g2 = emit (StateCall S_getState) g1;
                     env1 = (if IsModeChanged state = Some True \<and> truthy (Mode state)
                             then (processEnv g2)\<lparr>env_mode := Mode state\<rparr> else processEnv g2);
                     env2 = (if truthy_num (RunId state)
                             then env1\<lparr>env_run_id := RunId state\<rparr> else env1)
                 in g2\<lparr>processEnv := env2\<rparr>))
         else g1)"

definition "constructor" :: "'b collaborators \<Rightarrow> OptionsType \<Rightarrow> globals \<Rightarrow> 'b QaseReporter \<times> globals" where
  "constructor X opts g0 =
     (let g2 = apply_state_overrides g0;
          composedOptions = composeOptions X opts (processEnv g2);
          q0 = \<lparr>upstreamReporter = None, fallbackReporter = None,
                qr_captureLogs = captureLogs composedOptions,
                disabled = False, useFallback = False,
                startTestRunOperation = None, options = composedOptions\<rparr>;
          g3 = logDebug msg_config g2
      in case createReporter X (mode_or_off (mode composedOptions)) composedOptions of
           Inr r \<Rightarrow> constructor_fallback X (q0\<lparr>upstreamReporter := Some r\<rparr>) g3
         | Inl DisabledException \<Rightarrow> constructor_fallback X (q0\<lparr>disabled := True\<rparr>) g3
         | Inl (Error e) \<Rightarrow>
             (let g4 = logError msg_create_upstream g3
              in if fallback composedOptions \<noteq> None then (q0\<lparr>disabled := True\<rparr>, g4)
                 else constructor_fallback X (q0\<lparr>useFallback := True\<rparr>) g4))"

text \<open>
  \<open>getInstance\<close>: the static field \<open>QaseReporter.instance\<close> is the first component of the
  process state. The constructor is private, so this is the only place an object is made.
\<close>

definition getInstance ::
  "'b collaborators \<Rightarrow> OptionsType \<Rightarrow> 'b QaseReporter option \<times> globals
     \<Rightarrow> 'b QaseReporter \<times> ('b QaseReporter option \<times> globals)" where
  "getInstance X opts p =
     (case fst p of
        None \<Rightarrow> (let (q, g) = constructor X opts (snd p) in (q, (Some q, g)))
      | Some q \<Rightarrow> (q, p))"

subsection \<open>Calls on the backends\<close>

text \<open>\<open>await this.upstreamReporter?.op()\<close> and \<open>await this.fallbackReporter?.op()\<close>\<close>

definition await_upstream ::
  "('b \<Rightarrow> error option \<times> 'b) \<Rightarrow> backend_op \<Rightarrow> 'b QaseReporter \<Rightarrow> globals
     \<Rightarrow> error option \<times> 'b QaseReporter \<times> globals" where
  "await_upstream f m q g =
     (case upstreamReporter q of
        None \<Rightarrow> (None, q, g)
      | Some u \<Rightarrow> (fst (f u), q\<lparr>upstreamReporter := Some (snd (f u))\<rparr>,
                   emit (BackendCall Upstream m) g))"

definition await_fallback ::
  "('b \<Rightarrow> error option \<times> 'b) \<Rightarrow> backend_op \<Rightarrow> 'b QaseReporter \<Rightarrow> globals
     \<Rightarrow> error option \<times> 'b QaseReporter \<times> globals" where
  "await_fallback f m q g =
     (case fallbackReporter q of
        None \<Rightarrow> (None, q, g)
      | Some b \<Rightarrow> (fst (f b), q\<lparr>fallbackReporter := Some (snd (f b))\<rparr>,
                   emit (BackendCall Fallback m) g))"

text \<open>
  The block that four methods share:
  \<^verbatim>\<open>
  if (!this.useFallback) {
    this.fallbackReporter.setTestResults(this.upstreamReporter?.getTestResults() ?? []);
    this.useFallback = true;
  }
  \<close>
  Every caller has returned before it when \<open>fallbackReporter\<close> is undefined, so the
  \<open>None\<close> case is never reached.
\<close>

definition migrate :: "'b collaborators \<Rightarrow> 'b QaseReporter \<Rightarrow> globals \<Rightarrow> 'b QaseReporter \<times> globals" where
  "migrate X q g =
     (if \<not> useFallback q then
        (case fallbackReporter q of
           None \<Rightarrow> (q, g)
         | Some b \<Rightarrow>
             (let (rs, g1) =
                    (case upstreamReporter q of
                       None \<Rightarrow> ([], g)
                     | Some u \<Rightarrow> (r_getTestResults X u,
                                  emit (BackendCall Upstream M_getTestResults) g))
              in (q\<lparr>fallbackReporter := Some (r_setTestResults X rs b), useFallback := True\<rparr>,
                  emit (BackendCall Fallback (M_setTestResults rs)) g1)))
      else (q, g))"

subsection \<open>\<open>getResults\<close>, \<open>setTestResults\<close>, \<open>isCaptureLogs\<close>\<close>

definition getResults :: "'b collaborators \<Rightarrow> 'b QaseReporter \<Rightarrow> globals \<Rightarrow> TestResultType list \<times> globals" where
  "getResults X q g =
     (if disabled q then ([], g)
      else if useFallback q then
        (case fallbackReporter q of
           None \<Rightarrow> ([], g)
         | Some b \<Rightarrow> (r_getTestResults X b, emit (BackendCall Fallback M_getTestResults) g))
      else
        (case upstreamReporter q of
           None \<Rightarrow> ([], g)
         | Some u \<Rightarrow> (r_getTestResults X u, emit (BackendCall Upstream M_getTestResults) g)))"

definition setTestResults ::
  "'b collaborators \<Rightarrow> TestResultType list \<Rightarrow> 'b QaseReporter \<Rightarrow> globals \<Rightarrow> 'b QaseReporter \<times> globals" where
  "setTestResults X results q g =
     (if disabled q then (q, g)
      else if useFallback q then
        (case fallbackReporter q of
           None \<Rightarrow> (q, g)
         | Some b \<Rightarrow> (q\<lparr>fallbackReporter := Some (r_setTestResults X results b)\<rparr>,
                      emit (BackendCall Fallback (M_setTestResults results)) g))
      else
        (case upstreamReporter q of
           None \<Rightarrow> (q, g)
         | Some u \<Rightarrow> (q\<lparr>upstreamReporter := Some (r_setTestResults X results u)\<rparr>,
                      emit (BackendCall Upstream (M_setTestResults results)) g)))"

definition isCaptureLogs :: "'b QaseReporter \<Rightarrow> bool" where
  "isCaptureLogs q = (case qr_captureLogs q of None \<Rightarrow> False | Some c \<Rightarrow> c)"

subsection \<open>\<open>sendResults\<close> and \<open>complete\<close>\<close>

definition sendResults :: "'b collaborators \<Rightarrow> 'b QaseReporter \<Rightarrow> globals \<Rightarrow> 'b QaseReporter \<times> globals" where
  "sendResults X q g =
     (if disabled q then (q, g)
      else
        (case await_upstream (r_sendResults X) M_sendResults q g of
           (None, q1, g1) \<Rightarrow> (q1, g1)
         | (Some e, q1, g1) \<Rightarrow>
             (let g2 = logError msg_send_upstream g1
              in if fallbackReporter q1 = None then
                   (q1, StateManager_setMode (Some ModeEnum_off) g2)
                 else
                   (let (q3, g3) = migrate X q1 g2
                    in case await_fallback (r_sendResults X) M_sendResults q3 g3 of
                         (None, q4, g4) \<Rightarrow> (q4, StateManager_setMode (fallback (options q4)) g4)
                       | (Some e', q4, g4) \<Rightarrow>
                           (q4, StateManager_setMode (Some ModeEnum_off)
                                  (logError msg_send_fallback g4))))))"

definition complete :: "'b collaborators \<Rightarrow> 'b QaseReporter \<Rightarrow> globals \<Rightarrow> 'b QaseReporter \<times> globals" where
  "complete X q g0 =
     (let g = StateManager_clearState g0
      in if disabled q then (q, g)
         else
           (case await_upstream (r_complete X) M_complete q g of
              (None, q1, g1) \<Rightarrow> (q1, g1)
            | (Some e, q1, g1) \<Rightarrow>
                (let g2 = logError msg_complete_upstream g1
                 in if fallbackReporter q1 = None then (q1, g2)
                    else
                      (let (q3, g3) = migrate X q1 g2
                       in case await_fallback (r_complete X) M_complete q3 g3 of
                            (None, q4, g4) \<Rightarrow> (q4, g4)
                          | (Some e', q4, g4) \<Rightarrow>
                              (q4, logError msg_complete_fallback g4)))))"

subsection \<open>\<open>startTestRun\<close>\<close>

text \<open>
  The backend's \<open>startTestRun\<close> is not awaited here, so the \<open>catch\<close> sees only what it
  throws at once; a promise that rejects later is stored like any other.
\<close>

definition startTestRun :: "'b collaborators \<Rightarrow> 'b QaseReporter \<Rightarrow> globals \<Rightarrow> 'b QaseReporter \<times> globals" where
  "startTestRun X q g =
     (if \<not> disabled q then
        (let g1 = logDebug msg_starting g
         in case upstreamReporter q of
              None \<Rightarrow> (q\<lparr>startTestRunOperation := None\<rparr>, g1)
            | Some u \<Rightarrow>
                (let g2 = emit (BackendCall Upstream M_startTestRun) g1;
                     q2 = q\<lparr>upstreamReporter := Some (snd (r_startTestRun X u))\<rparr>
                 in case fst (r_startTestRun X u) of
                      Inr p \<Rightarrow> (q2\<lparr>startTestRunOperation := Some p\<rparr>, g2)
                    | Inl e \<Rightarrow>
                        (let g3 = logError msg_start_upstream g2
                         in case fallbackReporter q2 of
                              None \<Rightarrow> (q2\<lparr>disabled := True\<rparr>,
                                       StateManager_setMode (Some ModeEnum_off) g3)
                            | Some b \<Rightarrow>
                                (let g4 = emit (BackendCall Fallback M_startTestRun) g3;
                                     q4 = q2\<lparr>fallbackReporter := Some (snd (r_startTestRun X b))\<rparr>
                                 in case fst (r_startTestRun X b) of
                                      Inr p \<Rightarrow>
                                        (q4\<lparr>startTestRunOperation := Some p\<rparr>,
                                         StateManager_setMode (fallback (options q4)) g4)
                                    | Inl e' \<Rightarrow>
                                        (q4\<lparr>disabled := True\<rparr>,
                                         StateManager_setMode (Some ModeEnum_off)
                                           (logError msg_start_fallback g4))))))
      else (q, g))"

text \<open>
  \<open>await this.startTestRunOperation\<close>: the await is an event of the trace; it throws what a
  rejected promise was rejected with, and continues otherwise (also on \<open>undefined\<close>).
\<close>

definition await_startTestRunOperation :: "'b QaseReporter \<Rightarrow> globals \<Rightarrow> error option \<times> globals" where
  "await_startTestRunOperation q g =
     (case startTestRunOperation q of
        Some (Rejected e) \<Rightarrow> (Some e, emit AwaitStartTestRunOperation g)
      | _ \<Rightarrow> (None, emit AwaitStartTestRunOperation g))"

definition startTestRunAsync ::
  "'b collaborators \<Rightarrow> 'b QaseReporter \<Rightarrow> globals \<Rightarrow> error option \<times> 'b QaseReporter \<times> globals" where
  "startTestRunAsync X q g =
     (let (q1, g1) = startTestRun X q g;
          (r, g2) = await_startTestRunOperation q1 g1
      in (r, q1, g2))"

subsection \<open>\<open>addTestResult\<close>\<close>

definition resultLogMap :: "TestStatusEnum \<Rightarrow> chalk" where
  "resultLogMap st =
     (case st of failed \<Rightarrow> red | passed \<Rightarrow> green | skipped \<Rightarrow> blueBright
               | blocked \<Rightarrow> blueBright | disabled_status \<Rightarrow> grey | invalid \<Rightarrow> yellowBright)"

definition status_text :: "TestStatusEnum \<Rightarrow> string" where
  "status_text st =
     (case st of failed \<Rightarrow> ''failed'' | passed \<Rightarrow> ''passed'' | skipped \<Rightarrow> ''skipped''
               | blocked \<Rightarrow> ''blocked'' | disabled_status \<Rightarrow> ''disabled'' | invalid \<Rightarrow> ''invalid'')"

text \<open>The line \<^verbatim>\<open>Test ${test.title} ${test.execution.status}\<close>, before it is coloured.\<close>

definition log_line :: "TestResultType \<Rightarrow> string" where
  "log_line test = ''Test '' @ title test @ '' '' @ status_text (execution_status test)"

definition logTestItem :: "TestResultType \<Rightarrow> globals \<Rightarrow> globals" where
  "logTestItem test g = emit (Log (resultLogMap (execution_status test)) (log_line test)) g"

definition addTestResultToFallback ::
  "'b collaborators \<Rightarrow> TestResultType \<Rightarrow> 'b QaseReporter \<Rightarrow> globals \<Rightarrow> 'b QaseReporter \<times> globals" where
  "addTestResultToFallback X result q g =
     (case await_fallback (r_addTestResult X result) (M_addTestResult result) q g of
        (None, q1, g1) \<Rightarrow> (q1, StateManager_setMode (fallback (options q1)) g1)
      | (Some e, q1, g1) \<Rightarrow>
          (q1\<lparr>disabled := True\<rparr>,
           StateManager_setMode (Some ModeEnum_off)
             (logError msg_add_fallback g1)))"

definition addTestResult ::
  "'b collaborators \<Rightarrow> TestResultType \<Rightarrow> 'b QaseReporter \<Rightarrow> globals
     \<Rightarrow> error option \<times> 'b QaseReporter \<times> globals" where
  "addTestResult X result q g =
     (if \<not> disabled q then
        (case await_startTestRunOperation q g of
           (Some e, g1) \<Rightarrow> (Some e, q, g1)
         | (None, g1) \<Rightarrow>
             (let g2 = logTestItem result g1
              in if useFallback q then
                   (let (q3, g3) = addTestResultToFallback X result q g2 in (None, q3, g3))
                 else
                   (case await_upstream (r_addTestResult X result) (M_addTestResult result) q g2 of
                      (None, q3, g3) \<Rightarrow> (None, q3, g3)
                    | (Some e, q3, g3) \<Rightarrow>
                        (let g4 = logError msg_add_upstream g3
                         in if fallbackReporter q3 = None then
                              (None, q3\<lparr>disabled := True\<rparr>,
                               StateManager_setMode (Some ModeEnum_off) g4)
                            else
                              (let (q5, g5) = migrate X q3 g4;
                                   (q6, g6) = addTestResultToFallback X result q5 g5
                               in (None, q6, g6))))))
      else (None, q, g))"

subsection \<open>\<open>publish\<close>\<close>

definition publishFallback :: "'b collaborators \<Rightarrow> 'b QaseReporter \<Rightarrow> globals \<Rightarrow> 'b QaseReporter \<times> globals" where
  "publishFallback X q g =
     (case await_fallback (r_publish X) M_publish q g of
        (None, q1, g1) \<Rightarrow> (q1, StateManager_setMode (fallback (options q1)) g1)
      | (Some e, q1, g1) \<Rightarrow>
          (q1\<lparr>disabled := True\<rparr>,
           logError msg_publish_fallback
             (StateManager_setMode (Some ModeEnum_off) g1)))"

definition publish ::
  "'b collaborators \<Rightarrow> 'b QaseReporter \<Rightarrow> globals \<Rightarrow> error option \<times> 'b QaseReporter \<times> globals" where
  "publish X q g =
     (if \<not> disabled q then
        (case await_startTestRunOperation q g of
           (Some e, g1) \<Rightarrow> (Some e, q, g1)
         | (None, g1) \<Rightarrow>
             (let g2 = logDebug msg_publishing g1;
                  (q3, g3) = (if useFallback q then publishFallback X q g2 else (q, g2))
              in case await_upstream (r_publish X) M_publish q3 g3 of
                   (None, q4, g4) \<Rightarrow> (None, q4, StateManager_clearState g4)
                 | (Some e, q4, g4) \<Rightarrow>
                     (let g5 = logError msg_publish_upstream g4
                      in if fallbackReporter q4 = None then
                           (None, q4\<lparr>disabled := True\<rparr>,
                            StateManager_setMode (Some ModeEnum_off) g5)
                         else
                           (let (q6, g6) = migrate X q4 g5;
                                (q7, g7) = publishFallback X q6 g6
                            in (None, q7, StateManager_clearState g7)))))
      else (None, q, StateManager_clearState g))"

subsection \<open>Sequences of calls, and what a trace shows\<close>

text \<open>A call of a public method by the test runner, and a run of such calls, in order.\<close>

datatype call =
    AddTestResult TestResultType
  | StartTestRun
  | StartTestRunAsync
  | SendResults
  | Publish
  | Complete
  | SetTestResults "TestResultType list"
  | GetResults

definition perform :: "'b collaborators \<Rightarrow> call \<Rightarrow> 'b QaseReporter \<times> globals \<Rightarrow> 'b QaseReporter \<times> globals" where
  "perform X c s =
     (case c of
        AddTestResult r \<Rightarrow> snd (addTestResult X r (fst s) (snd s))
      | StartTestRun \<Rightarrow> startTestRun X (fst s) (snd s)
      | StartTestRunAsync \<Rightarrow> snd (startTestRunAsync X (fst s) (snd s))
      | SendResults \<Rightarrow> sendResults X (fst s) (snd s)
      | Publish \<Rightarrow> snd (publish X (fst s) (snd s))
      | Complete \<Rightarrow> complete X (fst s) (snd s)
      | SetTestResults rs \<Rightarrow> setTestResults X rs (fst s) (snd s)
      | GetResults \<Rightarrow> (fst s, snd (getResults X (fst s) (snd s))))"

fun run :: "'b collaborators \<Rightarrow> call list \<Rightarrow> 'b QaseReporter \<times> globals \<Rightarrow> 'b QaseReporter \<times> globals" where
  "run X [] s = s"
| "run X (c # cs) s = run X cs (perform X c s)"

text \<open>The events a step added to the trace, and the projections of a trace.\<close>

definition events_since :: "globals \<Rightarrow> globals \<Rightarrow> event list" where
  "events_since g g' = drop (length (trace g)) (trace g')"

fun is_backend_call :: "event \<Rightarrow> bool" where
  "is_backend_call (BackendCall r m) = True"
| "is_backend_call e = False"

fun is_state_call :: "event \<Rightarrow> bool" where
  "is_state_call (StateCall c) = True"
| "is_state_call e = False"

definition backend_calls :: "event list \<Rightarrow> event list" where
  "backend_calls evs = filter is_backend_call evs"

definition state_calls :: "event list \<Rightarrow> event list" where
  "state_calls evs = filter is_state_call evs"

text \<open>The calls of one operation of the backends, on either backend.\<close>

definition calls_of :: "backend_op \<Rightarrow> event list \<Rightarrow> event list" where
  "calls_of m evs = filter (\<lambda>e. e = BackendCall Upstream m \<or> e = BackendCall Fallback m) evs"

text \<open>The deliveries of a result to the upstream reporter.\<close>

fun is_upstream_add :: "event \<Rightarrow> bool" where
  "is_upstream_add (BackendCall Upstream (M_addTestResult r)) = True"
| "is_upstream_add e = False"

definition upstream_adds :: "event list \<Rightarrow> event list" where
  "upstream_adds evs = filter is_upstream_add evs"

subsection \<open>Stub collaborators\<close>

text \<open>
  A backend with a buffer and a switch: while \<open>failing\<close>, every operation throws and
  changes nothing; otherwise \<open>addTestResult\<close> appends to the buffer and the other
  operations succeed. The theorems below hold for every collaborator; the stubs are the
  concrete ones at which they are instantiated.
\<close>

record stub_reporter =
  buffer :: "TestResultType list"
  failing :: bool

definition stub_call :: "stub_reporter \<Rightarrow> error option \<times> stub_reporter" where
  "stub_call b = (if failing b then (Some (Error msg_backend_down), b) else (None, b))"

definition stub_options :: "OptionsType \<Rightarrow> process_env \<Rightarrow> OptionsType" where
  "stub_options opts env =
     (case env_mode env of None \<Rightarrow> opts | Some m \<Rightarrow> opts\<lparr>mode := Some m\<rparr>)"

definition stubs :: "stub_reporter collaborators" where
  "stubs =
     \<lparr>composeOptions = stub_options,
      newTestOpsReporter = (\<lambda>opts. Inr \<lparr>buffer = [], failing = False\<rparr>),
      newReportReporter = (\<lambda>opts. Inr \<lparr>buffer = [], failing = False\<rparr>),
      r_getTestResults = buffer,
      r_setTestResults = (\<lambda>rs b. b\<lparr>buffer := rs\<rparr>),
      r_startTestRun = (\<lambda>b. if failing b then (Inl (Error msg_backend_down), b)
                              else (Inr Fulfilled, b)),
      r_addTestResult = (\<lambda>r b. if failing b then (Some (Error msg_backend_down), b)
                                 else (None, b\<lparr>buffer := buffer b @ [r]\<rparr>)),
      r_sendResults = stub_call,
      r_publish = stub_call,
      r_complete = stub_call\<rparr>"

definition up :: stub_reporter where "up = \<lparr>buffer = [], failing = False\<rparr>"
definition down :: stub_reporter where "down = \<lparr>buffer = [], failing = True\<rparr>"

text \<open>An upstream reporter that accepted \<open>T1\<close> and then went down.\<close>

definition down_after_T1 :: stub_reporter where
  "down_after_T1 = \<lparr>buffer = [\<lparr>title = ''T1'', execution_status = passed\<rparr>], failing = True\<rparr>"

definition T1 :: TestResultType where "T1 = \<lparr>title = ''T1'', execution_status = passed\<rparr>"
definition T2 :: TestResultType where "T2 = \<lparr>title = ''T2'', execution_status = failed\<rparr>"

definition opts0 :: OptionsType where
  "opts0 = \<lparr>mode = Some ModeEnum_testops, fallback = Some ModeEnum_report, captureLogs = None,
            testops_api_token = Some ''token'', testops_project = Some ''DEMO''\<rparr>"

text \<open>A process that has not started anything yet: no state file, empty trace.\<close>

definition g_init :: globals where
  "g_init = \<lparr>stateFile = None, processEnv = \<lparr>env_mode = None, env_run_id = None\<rparr>, trace = []\<rparr>"

text \<open>The state file as the constructor of the first process leaves it.\<close>

definition g_started :: globals where
  "g_started = g_init\<lparr>stateFile := Some \<lparr>RunId = None, Mode = Some ModeEnum_testops,
                                           IsModeChanged = None\<rparr>\<rparr>"

text \<open>An enabled facade on the given backends.\<close>

definition facade :: "stub_reporter option \<Rightarrow> stub_reporter option \<Rightarrow> stub_reporter QaseReporter" where
  "facade u b =
     \<lparr>upstreamReporter = u, fallbackReporter = b, qr_captureLogs = None, disabled = False,
      useFallback = False, startTestRunOperation = None, options = opts0\<rparr>"

text \<open>
  The same backends, except that \<open>startTestRun\<close> never throws at the call: it returns a
  promise that is rejected later, as an \<open>async\<close> function does when its body fails.
\<close>

definition stubs_rejecting :: "stub_reporter collaborators" where
  "stubs_rejecting = stubs\<lparr>r_startTestRun := (\<lambda>b. (Inr (Rejected (Error msg_backend_down)), b))\<rparr>"

text \<open>Options with which the creation of the upstream reporter throws an ordinary error.\<close>

definition opts_no_token :: OptionsType where
  "opts_no_token = opts0\<lparr>testops_api_token := None\<rparr>"

definition opts_no_token_no_fallback :: OptionsType where
  "opts_no_token_no_fallback = opts0\<lparr>testops_api_token := None, fallback := None\<rparr>"

text \<open>A facade that has switched to the fallback, with both backends failing.\<close>

definition switched_both_down :: "stub_reporter QaseReporter" where
  "switched_both_down = (facade (Some down) (Some down))\<lparr>useFallback := True\<rparr>"

section \<open>Properties\<close>

subsection \<open>Unfolding rules\<close>

lemmas sm_defs = isStateExists_def getState_def setState_def setMode_def clearState_def
  StateManager_setMode_def StateManager_setState_def StateManager_clearState_def
  emit_def logError_def logDebug_def logTestItem_def
lemmas backend_defs = await_upstream_def await_fallback_def migrate_def
lemmas call_defs = await_upstream_def await_fallback_def migrate_def await_startTestRunOperation_def
lemmas stub_defs = stubs_def stub_call_def stub_options_def up_def down_def down_after_T1_def
  T1_def T2_def opts0_def g_init_def g_started_def facade_def
  stubs_rejecting_def opts_no_token_def opts_no_token_no_fallback_def switched_both_down_def
lemmas mode_defs = ModeEnum_testops_def ModeEnum_report_def ModeEnum_off_def truthy_def truthy_num_def mode_or_off_def

subsection \<open>The constructor\<close>

lemma createReporter_off: "createReporter X (mode_or_off None) opts = Inl DisabledException"
  by (simp add: createReporter_def mode_defs)

lemma constructor_fallback_keeps:
  "upstreamReporter (fst (constructor_fallback X q g)) = upstreamReporter q"
  "options (fst (constructor_fallback X q g)) = options q"
  "useFallback (fst (constructor_fallback X q g)) = useFallback q"
  "processEnv (snd (constructor_fallback X q g)) = processEnv g"
  "startTestRunOperation (fst (constructor_fallback X q g)) = startTestRunOperation q"
  "disabled q \<Longrightarrow> disabled (fst (constructor_fallback X q g))"
  by (simp_all add: constructor_fallback_def Let_def sm_defs split: sum.splits error.splits)

lemma constructor_fallback_without_fallback:
  "useFallback q \<Longrightarrow> fallback (options q) = None \<Longrightarrow> disabled (fst (constructor_fallback X q g))"
  by (simp add: constructor_fallback_def createReporter_off Let_def sm_defs)

lemma constructor_cases:
  "constructor X opts g =
     (case createReporter X (mode_or_off (mode (composeOptions X opts (processEnv (apply_state_overrides g)))))
             (composeOptions X opts (processEnv (apply_state_overrides g))) of
        Inr r \<Rightarrow>
          constructor_fallback X
            \<lparr>upstreamReporter = Some r, fallbackReporter = None,
             qr_captureLogs = captureLogs (composeOptions X opts (processEnv (apply_state_overrides g))),
             disabled = False, useFallback = False, startTestRunOperation = None,
             options = composeOptions X opts (processEnv (apply_state_overrides g))\<rparr>
            (logDebug msg_config (apply_state_overrides g))
      | Inl DisabledException \<Rightarrow>
          constructor_fallback X
            \<lparr>upstreamReporter = None, fallbackReporter = None,
             qr_captureLogs = captureLogs (composeOptions X opts (processEnv (apply_state_overrides g))),
             disabled = True, useFallback = False, startTestRunOperation = None,
             options = composeOptions X opts (processEnv (apply_state_overrides g))\<rparr>
            (logDebug msg_config (apply_state_overrides g))
      | Inl (Error e) \<Rightarrow>
          (if fallback (composeOptions X opts (processEnv (apply_state_overrides g))) \<noteq> None then
             (\<lparr>upstreamReporter = None, fallbackReporter = None,
               qr_captureLogs = captureLogs (composeOptions X opts (processEnv (apply_state_overrides g))),
               disabled = True, useFallback = False, startTestRunOperation = None,
               options = composeOptions X opts (processEnv (apply_state_overrides g))\<rparr>,
              logError msg_create_upstream (logDebug msg_config (apply_state_overrides g)))
           else
             constructor_fallback X
               \<lparr>upstreamReporter = None, fallbackReporter = None,
                qr_captureLogs = captureLogs (composeOptions X opts (processEnv (apply_state_overrides g))),
                disabled = False, useFallback = True, startTestRunOperation = None,
                options = composeOptions X opts (processEnv (apply_state_overrides g))\<rparr>
               (logError msg_create_upstream (logDebug msg_config (apply_state_overrides g)))))"
  by (simp add: constructor_def Let_def split: sum.splits error.splits)

lemma constructor_upstream_error:
  assumes "createReporter X (mode_or_off (mode (composeOptions X opts (processEnv (apply_state_overrides g)))))
             (composeOptions X opts (processEnv (apply_state_overrides g))) = Inl (Error e)"
  shows "disabled (fst (constructor X opts g)) \<and>
         useFallback (fst (constructor X opts g)) =
           (fallback (composeOptions X opts (processEnv (apply_state_overrides g))) = None)"
  using assms
  by (simp add: constructor_cases constructor_fallback_keeps constructor_fallback_without_fallback)

text \<open>
  C1 (the constructor and the fallback). Claimed: when the creation of the upstream
  reporter fails with an error other than \<open>DisabledException\<close>, the facade is disabled if
  no fallback mode is configured, and switches to the fallback (\<open>useFallback = true\<close>)
  if one is. The constructor tests \<open>composedOptions.fallback != undefined\<close> where every
  method tests \<open>this.fallbackReporter == undefined\<close>, so it does the reverse
  (\<open>constructor_upstream_error\<close>). Evaluated here: \<open>testops\<close> mode without a token, so that
  \<open>createReporter\<close> throws an ordinary error. With the fallback mode \<open>report\<close> configured the
  facade ends disabled, \<open>useFallback\<close> is false, no fallback reporter is created and the
  state file is not written; with no fallback mode \<open>useFallback\<close> is set, and the facade
  ends disabled all the same, since creating the reporter for \<open>off\<close> throws
  \<open>DisabledException\<close>.
\<close>

theorem constructor_error_with_fallback_disables:
  "createReporter stubs (mode_or_off (mode (opts0\<lparr>testops_api_token := None\<rparr>)))
     (opts0\<lparr>testops_api_token := None\<rparr>) = Inl (Error msg_token_required) \<and>
   fallback (options (fst (constructor stubs (opts0\<lparr>testops_api_token := None\<rparr>) g_init)))
     = Some ModeEnum_report \<and>
   disabled (fst (constructor stubs (opts0\<lparr>testops_api_token := None\<rparr>) g_init)) \<and>
   \<not> useFallback (fst (constructor stubs (opts0\<lparr>testops_api_token := None\<rparr>) g_init)) \<and>
   fallbackReporter (fst (constructor stubs (opts0\<lparr>testops_api_token := None\<rparr>) g_init)) = None \<and>
   stateFile (snd (constructor stubs (opts0\<lparr>testops_api_token := None\<rparr>) g_init)) = None \<and>
   disabled (fst (constructor stubs (opts0\<lparr>testops_api_token := None, fallback := None\<rparr>) g_init)) \<and>
   useFallback (fst (constructor stubs (opts0\<lparr>testops_api_token := None, fallback := None\<rparr>) g_init))"
  by (simp add: constructor_def constructor_fallback_def apply_state_overrides_def createReporter_def
      stub_defs mode_defs sm_defs Let_def)

text \<open>
  Whatever the options: a facade that the constructor leaves without an upstream reporter
  is disabled.
\<close>

lemma constructor_without_upstream_is_disabled:
  assumes "upstreamReporter (fst (constructor X opts g)) = None"
  shows "disabled (fst (constructor X opts g))"
proof (cases "createReporter X (mode_or_off (mode (composeOptions X opts (processEnv (apply_state_overrides g)))))
             (composeOptions X opts (processEnv (apply_state_overrides g)))")
  case (Inr r)
  with assms show ?thesis
    by (simp add: constructor_cases constructor_fallback_keeps)
next
  case (Inl err)
  then show ?thesis
    by (cases err)
       (simp_all add: constructor_cases constructor_fallback_keeps constructor_fallback_without_fallback)
qed

lemma constructor_options:
  "options (fst (constructor X opts g)) = composeOptions X opts (processEnv (snd (constructor X opts g)))"
proof -
  have e: "processEnv (snd (constructor X opts g)) = processEnv (apply_state_overrides g)"
    by (simp add: constructor_cases constructor_fallback_keeps sm_defs split: sum.splits error.splits)
  have "options (fst (constructor X opts g)) = composeOptions X opts (processEnv (apply_state_overrides g))"
    by (simp add: constructor_cases constructor_fallback_keeps split: sum.splits error.splits)
  with e show ?thesis by simp
qed

text \<open>
  C9. \<open>getInstance\<close> memoizes: the first call (static field empty) constructs the instance
  from its options and stores it; a later call with any options returns that same instance
  and changes nothing, neither the field nor the process state; the configuration of the
  instance is the one composed from the first call's options.
\<close>

theorem getInstance_memoizes:
  assumes "getInstance X optionsA (None, g) = (q, p)"
  shows "getInstance X optionsB p = (q, p) \<and> fst p = Some q \<and>
         q = fst (constructor X optionsA g) \<and>
         options q = composeOptions X optionsA (processEnv (snd p))"
proof -
  obtain q1 g1 where c: "constructor X optionsA g = (q1, g1)" by (cases "constructor X optionsA g")
  with assms have qp: "q = q1" "p = (Some q1, g1)" by (auto simp: getInstance_def)
  from constructor_options[of X optionsA g] c have "options q1 = composeOptions X optionsA (processEnv g1)"
    by simp
  with qp c show ?thesis by (simp add: getInstance_def)
qed

theorem getInstance_memoizes_witness:
  "getInstance stubs opts0 (None, g_init) = (fst (constructor stubs opts0 g_init), Some (fst (constructor stubs opts0 g_init)), snd (constructor stubs opts0 g_init)) \<and>
   getInstance stubs (opts0\<lparr>mode := Some ModeEnum_report, fallback := None\<rparr>)
     (Some (fst (constructor stubs opts0 g_init)), snd (constructor stubs opts0 g_init)) =
     (fst (constructor stubs opts0 g_init), Some (fst (constructor stubs opts0 g_init)), snd (constructor stubs opts0 g_init)) \<and>
   options (fst (constructor stubs opts0 g_init)) = opts0"
  using getInstance_memoizes[of stubs opts0 g_init "fst (constructor stubs opts0 g_init)"
      "(Some (fst (constructor stubs opts0 g_init)), snd (constructor stubs opts0 g_init))"
      "opts0\<lparr>mode := Some ModeEnum_report, fallback := None\<rparr>"]
  by (simp add: getInstance_def constructor_def constructor_fallback_def apply_state_overrides_def
      createReporter_def stub_defs mode_defs sm_defs Let_def split: prod.splits)

subsection \<open>A disabled facade\<close>

text \<open>Every public method tests \<open>disabled\<close> before anything that reaches a backend.\<close>

lemma addTestResult_disabled: "disabled q \<Longrightarrow> addTestResult X r q g = (None, q, g)"
  by (simp add: addTestResult_def)
lemma startTestRun_disabled: "disabled q \<Longrightarrow> startTestRun X q g = (q, g)"
  by (simp add: startTestRun_def)
lemma sendResults_disabled: "disabled q \<Longrightarrow> sendResults X q g = (q, g)"
  by (simp add: sendResults_def)
lemma publish_disabled: "disabled q \<Longrightarrow> publish X q g = (None, q, StateManager_clearState g)"
  by (simp add: publish_def)
lemma complete_disabled: "disabled q \<Longrightarrow> complete X q g = (q, StateManager_clearState g)"
  by (simp add: complete_def Let_def)
lemma setTestResults_disabled: "disabled q \<Longrightarrow> setTestResults X rs q g = (q, g)"
  by (simp add: setTestResults_def)
lemma getResults_disabled: "disabled q \<Longrightarrow> getResults X q g = ([], g)"
  by (simp add: getResults_def)
lemma startTestRunAsync_disabled:
  "disabled q \<Longrightarrow> startTestRunAsync X q g =
     (fst (await_startTestRunOperation q g), q, emit AwaitStartTestRunOperation g)"
  by (simp add: startTestRunAsync_def startTestRun_disabled await_startTestRunOperation_def
      split: option.splits promise.splits)

lemma backend_calls_emit:
  "backend_calls (trace (emit e g)) = backend_calls (trace g) @ (if is_backend_call e then [e] else [])"
  by (simp add: backend_calls_def emit_def)

lemma perform_disabled:
  "disabled q \<Longrightarrow>
     disabled (fst (perform X c (q, g))) \<and>
     backend_calls (trace (snd (perform X c (q, g)))) = backend_calls (trace g)"
  by (cases c)
     (simp_all add: perform_def addTestResult_disabled startTestRun_disabled sendResults_disabled
        publish_disabled complete_disabled setTestResults_disabled getResults_disabled
        startTestRunAsync_disabled StateManager_clearState_def backend_calls_emit)

lemma run_disabled:
  "disabled q \<Longrightarrow>
     disabled (fst (run X cs (q, g))) \<and>
     backend_calls (trace (snd (run X cs (q, g)))) = backend_calls (trace g)"
proof (induction cs arbitrary: q g)
  case Nil
  then show ?case by simp
next
  case (Cons c cs)
  obtain q' g' where p: "perform X c (q, g) = (q', g')" by (cases "perform X c (q, g)")
  from perform_disabled[OF Cons.prems, of X c g] p
  have d: "disabled q'" and b: "backend_calls (trace g') = backend_calls (trace g)"
    by simp_all
  from Cons.IH[OF d, of g'] b p show ?case by simp
qed

lemma startTestRun_both_fail:
  assumes "\<not> disabled q" "upstreamReporter q = Some u" "fst (r_startTestRun X u) = Inl e"
    and "fallbackReporter q = None \<or> (\<exists>b e'. fallbackReporter q = Some b \<and> fst (r_startTestRun X b) = Inl e')"
  shows "disabled (fst (startTestRun X q g))"
  using assms by (auto simp: startTestRun_def Let_def sm_defs split: option.splits sum.splits)

text \<open>
  A call that begins with \<open>disabled\<close> set does nothing on the backends. Once \<open>disabled\<close>
  is true, it stays true through every sequence of calls of the
  public methods (\<open>addTestResult\<close>, \<open>startTestRun\<close>, \<open>startTestRunAsync\<close>, \<open>sendResults\<close>,
  \<open>publish\<close>, \<open>complete\<close>, \<open>setTestResults\<close>, \<open>getResults\<close>), no call on a backend is
  added to the trace, and \<open>getResults\<close> returns the empty list after each of them. In
  particular: when the upstream reporter's \<open>startTestRun\<close> throws and there is no fallback
  reporter, or the fallback reporter's \<open>startTestRun\<close> throws too, \<open>startTestRun\<close> leaves
  the facade disabled, and all of the above holds from then on. (The \<open>catch\<close> of
  \<open>startTestRun\<close> sees what the backend throws at the call, not a promise rejected later.)
\<close>

theorem disabled_is_inert:
  "(disabled q \<longrightarrow>
      disabled (fst (run X cs (q, g))) \<and>
      backend_calls (trace (snd (run X cs (q, g)))) = backend_calls (trace g) \<and>
      fst (getResults X (fst (run X cs (q, g))) (snd (run X cs (q, g)))) = []) \<and>
   (\<not> disabled q0 \<and> upstreamReporter q0 = Some u \<and> fst (r_startTestRun X u) = Inl e \<and>
      (fallbackReporter q0 = None \<or>
       (\<exists>b e'. fallbackReporter q0 = Some b \<and> fst (r_startTestRun X b) = Inl e')) \<longrightarrow>
      disabled (fst (startTestRun X q0 g0)) \<and>
      backend_calls (trace (snd (run X cs (startTestRun X q0 g0)))) =
        backend_calls (trace (snd (startTestRun X q0 g0))) \<and>
      fst (getResults X (fst (run X cs (startTestRun X q0 g0)))
                        (snd (run X cs (startTestRun X q0 g0)))) = [])"
proof (intro conjI impI)
  assume d: "disabled q"
  from run_disabled[OF d, of X cs g]
  show "disabled (fst (run X cs (q, g)))"
    and "backend_calls (trace (snd (run X cs (q, g)))) = backend_calls (trace g)"
    by simp_all
  then show "fst (getResults X (fst (run X cs (q, g))) (snd (run X cs (q, g)))) = []"
    by (simp add: getResults_disabled)
next
  assume h: "\<not> disabled q0 \<and> upstreamReporter q0 = Some u \<and> fst (r_startTestRun X u) = Inl e \<and>
      (fallbackReporter q0 = None \<or>
       (\<exists>b e'. fallbackReporter q0 = Some b \<and> fst (r_startTestRun X b) = Inl e'))"
  obtain q1 g1 where s: "startTestRun X q0 g0 = (q1, g1)" by (cases "startTestRun X q0 g0")
  from h startTestRun_both_fail[of q0 u X e g0] s have d: "disabled q1" by simp
  from d s show "disabled (fst (startTestRun X q0 g0))" by simp
  from run_disabled[OF d, of X cs g1] s
  show "backend_calls (trace (snd (run X cs (startTestRun X q0 g0)))) =
        backend_calls (trace (snd (startTestRun X q0 g0)))" by simp
  from run_disabled[OF d, of X cs g1] s
  show "fst (getResults X (fst (run X cs (startTestRun X q0 g0)))
                        (snd (run X cs (startTestRun X q0 g0)))) = []"
    by (simp add: getResults_disabled)
qed

theorem disabled_is_inert_witness:
  "disabled ((facade (Some up) (Some up))\<lparr>disabled := True\<rparr>) \<and>
   backend_calls (trace (snd (run stubs [AddTestResult T1, StartTestRun, SendResults, Publish]
       ((facade (Some up) (Some up))\<lparr>disabled := True\<rparr>, g_started)))) = [] \<and>
   \<not> disabled (facade (Some down) (Some down)) \<and>
   fst (r_startTestRun stubs down) = Inl (Error msg_backend_down) \<and>
   disabled (fst (startTestRun stubs (facade (Some down) (Some down)) g_started)) \<and>
   backend_calls (trace (snd (run stubs [AddTestResult T1, AddTestResult T2, Publish]
       (startTestRun stubs (facade (Some down) (Some down)) g_started)))) =
     [BackendCall Upstream M_startTestRun, BackendCall Fallback M_startTestRun] \<and>
   fst (getResults stubs
     (fst (run stubs [AddTestResult T1, AddTestResult T2, Publish]
        (startTestRun stubs (facade (Some down) (Some down)) g_started)))
     (snd (run stubs [AddTestResult T1, AddTestResult T2, Publish]
        (startTestRun stubs (facade (Some down) (Some down)) g_started)))) = []"
  using disabled_is_inert[of "(facade (Some up) (Some up))\<lparr>disabled := True\<rparr>" stubs
      "[AddTestResult T1, StartTestRun, SendResults, Publish]" g_started
      "facade (Some down) (Some down)" down "Error msg_backend_down" g_started]
    disabled_is_inert[of "(facade (Some up) (Some up))\<lparr>disabled := True\<rparr>" stubs
      "[AddTestResult T1, AddTestResult T2, Publish]" g_started
      "facade (Some down) (Some down)" down "Error msg_backend_down" g_started]
  by (simp add: stub_defs startTestRun_def sm_defs backend_calls_def Let_def)

text \<open>
  C6 (no backend call once \<open>disabled\<close> is true). Claimed: once \<open>disabled\<close> becomes true, no
  operation of a backend is ever invoked again by the facade. \<open>disabled_is_inert\<close> gives
  that for the calls that begin after the flag is set. It fails inside the \<open>publish\<close>
  that sets it: on a facade that has switched to the fallback, \<open>publish\<close> starts with
  \<open>publishFallback\<close>, whose \<open>catch\<close> sets \<open>disabled\<close> when the fallback's \<open>publish\<close>
  fails, and does not return after it, as \<open>addTestResult\<close> does after
  \<open>addTestResultToFallback\<close>. Evaluated here with both backends failing: the facade is
  disabled when \<open>publishFallback\<close> returns, and the same call then invokes the upstream's
  \<open>publish\<close> and the fallback's \<open>publish\<close> a second time.
\<close>

theorem publish_calls_backends_after_disabling:
  "\<not> disabled switched_both_down \<and> useFallback switched_both_down \<and>
   disabled (fst (publishFallback stubs switched_both_down
      (logDebug msg_publishing (emit AwaitStartTestRunOperation g_started)))) \<and>
   backend_calls (events_since
      (snd (publishFallback stubs switched_both_down
         (logDebug msg_publishing (emit AwaitStartTestRunOperation g_started))))
      (snd (snd (publish stubs switched_both_down g_started)))) =
     [BackendCall Upstream M_publish, BackendCall Fallback M_publish] \<and>
   backend_calls (events_since g_started (snd (snd (publish stubs switched_both_down g_started)))) =
     [BackendCall Fallback M_publish, BackendCall Upstream M_publish, BackendCall Fallback M_publish]"
  by (simp add: publish_def publishFallback_def stub_defs sm_defs call_defs events_since_def
      backend_calls_def Let_def)

text \<open>
  The instance of the claim, both backends failing during \<open>startTestRun\<close>, disables the
  facade only when they throw at the call (\<open>startTestRun_both_fail\<close>). The method does not
  await the promise, so a start that fails as a rejected promise is not caught: the facade
  stays enabled, the rejected promise is stored, and a later \<open>sendResults\<close> reaches the
  upstream reporter.
\<close>

lemma startTestRun_rejection_is_not_caught:
  "\<not> disabled (fst (startTestRun stubs_rejecting (facade (Some up) (Some up)) g_started)) \<and>
   startTestRunOperation (fst (startTestRun stubs_rejecting (facade (Some up) (Some up)) g_started)) =
     Some (Rejected (Error msg_backend_down)) \<and>
   backend_calls (events_since g_started
      (snd (startTestRun stubs_rejecting (facade (Some up) (Some up)) g_started))) =
     [BackendCall Upstream M_startTestRun] \<and>
   backend_calls (events_since g_started
      (snd (run stubs_rejecting [StartTestRun, SendResults] (facade (Some up) (Some up), g_started)))) =
     [BackendCall Upstream M_startTestRun, BackendCall Upstream M_sendResults]"
  by (simp add: perform_def startTestRun_def sendResults_def stub_defs sm_defs call_defs
      events_since_def backend_calls_def Let_def)

subsection \<open>\<open>startTestRun\<close> without an upstream reporter\<close>

text \<open>
  The method alone: if the facade is not disabled and has no upstream reporter,
  \<open>startTestRun\<close> only logs its debug line. The optional call is skipped, nothing is
  thrown, so no \<open>catch\<close> runs, no backend is called (the fallback's \<open>startTestRun\<close>
  neither), the state file is not touched, and \<open>startTestRunOperation\<close> is undefined
  afterwards.
\<close>

theorem startTestRun_without_upstream:
  assumes "\<not> disabled q" and "upstreamReporter q = None"
  shows "startTestRun X q g = (q\<lparr>startTestRunOperation := None\<rparr>, logDebug msg_starting g) \<and>
         events_since g (snd (startTestRun X q g)) = [LogDebug msg_starting] \<and>
         backend_calls (events_since g (snd (startTestRun X q g))) = [] \<and>
         startTestRunOperation (fst (startTestRun X q g)) = None \<and>
         \<not> disabled (fst (startTestRun X q g)) \<and>
         stateFile (snd (startTestRun X q g)) = stateFile g"
  using assms
  by (simp add: startTestRun_def sm_defs events_since_def backend_calls_def Let_def)

theorem startTestRun_without_upstream_witness:
  "\<not> disabled (facade None (Some up)) \<and> upstreamReporter (facade None (Some up)) = None \<and>
   events_since g_started (snd (startTestRun stubs (facade None (Some up)) g_started)) =
     [LogDebug msg_starting] \<and>
   fallbackReporter (fst (startTestRun stubs (facade None (Some up)) g_started)) = Some up \<and>
   startTestRunOperation (fst (startTestRun stubs (facade None (Some up)) g_started)) = None"
  using startTestRun_without_upstream[of "facade None (Some up)" stubs g_started]
  by (simp add: stub_defs sm_defs events_since_def)

text \<open>
  No run of the program is in that state. A facade that the constructor leaves without an
  upstream reporter is disabled, nothing has started a run, and through every sequence of
  calls the object stays as the constructor left it and no backend is called.
\<close>

lemma perform_disabled_fixed: "disabled q \<Longrightarrow> fst (perform X c (q, g)) = q"
  by (cases c)
     (simp_all add: perform_def addTestResult_disabled startTestRun_disabled sendResults_disabled
        publish_disabled complete_disabled setTestResults_disabled startTestRunAsync_disabled)

lemma run_disabled_fixed: "disabled q \<Longrightarrow> fst (run X cs (q, g)) = q"
proof (induction cs arbitrary: g)
  case Nil
  then show ?case by simp
next
  case (Cons c cs)
  obtain q' g' where p: "perform X c (q, g) = (q', g')" by (cases "perform X c (q, g)")
  with perform_disabled_fixed[OF Cons.prems, of X c g] have "q' = q" by simp
  with Cons p show ?case by simp
qed

lemma constructor_starts_nothing: "startTestRunOperation (fst (constructor X opts g)) = None"
  by (simp add: constructor_cases constructor_fallback_keeps split: sum.splits error.splits)

lemma constructed_without_upstream_is_inert:
  assumes "upstreamReporter (fst (constructor X opts g)) = None"
  shows "fst (run X cs (constructor X opts g)) = fst (constructor X opts g) \<and>
         disabled (fst (run X cs (constructor X opts g))) \<and>
         startTestRunOperation (fst (run X cs (constructor X opts g))) = None \<and>
         backend_calls (trace (snd (run X cs (constructor X opts g)))) =
           backend_calls (trace (snd (constructor X opts g)))"
proof -
  obtain q g1 where c: "constructor X opts g = (q, g1)" by (cases "constructor X opts g")
  from constructor_without_upstream_is_disabled[OF assms] c have d: "disabled q" by simp
  from constructor_starts_nothing[of X opts g] c have o: "startTestRunOperation q = None" by simp
  from run_disabled_fixed[OF d, of X cs g1] run_disabled[OF d, of X cs g1] d o c
  show ?thesis by simp
qed


subsection \<open>\<open>addTestResult\<close> waits for the start of the run\<close>

lemma await_not_rejected:
  "(\<forall>e. startTestRunOperation q \<noteq> Some (Rejected e)) \<Longrightarrow>
     await_startTestRunOperation q g = (None, emit AwaitStartTestRunOperation g)"
  by (simp add: await_startTestRunOperation_def split: option.splits promise.splits)

text \<open>
  C8. Every \<open>addTestResult\<close> of a facade that is not disabled starts by awaiting
  \<open>startTestRunOperation\<close>: the await is the first event of the call, before the log line
  and before any call on a backend; and if that promise is rejected, the call ends there,
  rejected with the same error, without any call on a backend.
\<close>

theorem addTestResult_awaits_startTestRun:
  assumes "\<not> disabled q"
  shows "\<exists>rest. events_since g (snd (snd (addTestResult X r q g))) = AwaitStartTestRunOperation # rest \<and>
           (\<forall>e. startTestRunOperation q = Some (Rejected e) \<longrightarrow>
                rest = [] \<and> fst (addTestResult X r q g) = Some e)"
  using assms
  by (simp add: addTestResult_def addTestResultToFallback_def sm_defs call_defs events_since_def Let_def
      split: option.splits promise.splits)

theorem addTestResult_awaits_startTestRun_witness:
  "\<not> disabled (facade (Some up) (Some up)) \<and>
   events_since g_started (snd (snd (addTestResult stubs T1 (facade (Some up) (Some up)) g_started))) =
     [AwaitStartTestRunOperation, Log green (log_line T1), BackendCall Upstream (M_addTestResult T1)] \<and>
   events_since g_started (snd (snd (addTestResult stubs T1
       ((facade (Some up) (Some up))\<lparr>startTestRunOperation := Some (Rejected (Error msg_backend_down))\<rparr>)
       g_started))) = [AwaitStartTestRunOperation] \<and>
   fst (addTestResult stubs T1
       ((facade (Some up) (Some up))\<lparr>startTestRunOperation := Some (Rejected (Error msg_backend_down))\<rparr>)
       g_started) = Some (Error msg_backend_down)"
  using addTestResult_awaits_startTestRun[of "facade (Some up) (Some up)" g_started stubs T1]
    addTestResult_awaits_startTestRun[of
      "(facade (Some up) (Some up))\<lparr>startTestRunOperation := Some (Rejected (Error msg_backend_down))\<rparr>"
      g_started stubs T1]
  by (simp add: stub_defs addTestResult_def sm_defs call_defs events_since_def Let_def resultLogMap_def)

subsection \<open>\<open>sendResults\<close> and \<open>complete\<close>\<close>

text \<open>
  C5. If \<open>sendResults\<close> fails on the upstream reporter and there is no fallback reporter,
  or it fails on the fallback reporter too (on the fallback as it is when called, that is
  after the migration of the buffer if the facade had not switched before), the facade is
  still enabled afterwards and the state file holds \<open>Mode = off\<close>, written by \<open>setMode\<close>.
\<close>

theorem sendResults_both_fail_stays_enabled:
  assumes "\<not> disabled q" and "upstreamReporter q = Some u" and "fst (r_sendResults X u) \<noteq> None"
    and "fallbackReporter q = None \<or>
         (\<exists>b. fallbackReporter q = Some b \<and>
              fst (r_sendResults X (if useFallback q then b
                     else r_setTestResults X (r_getTestResults X (snd (r_sendResults X u))) b)) \<noteq> None)"
  shows "\<not> disabled (fst (sendResults X q g)) \<and>
         (\<exists>s. stateFile (snd (sendResults X q g)) = Some s \<and>
              Mode s = Some ModeEnum_off \<and> IsModeChanged s = Some True)"
  using assms
  by (auto simp: sendResults_def sm_defs backend_defs Let_def split: option.splits)

theorem sendResults_both_fail_stays_enabled_witness:
  "\<not> disabled (facade (Some down) (Some down)) \<and>
   fst (r_sendResults stubs down) \<noteq> None \<and>
   \<not> disabled (fst (sendResults stubs (facade (Some down) (Some down)) g_started)) \<and>
   stateFile (snd (sendResults stubs (facade (Some down) (Some down)) g_started)) =
     Some \<lparr>RunId = None, Mode = Some ModeEnum_off, IsModeChanged = Some True\<rparr>"
  using sendResults_both_fail_stays_enabled[of "facade (Some down) (Some down)" down stubs g_started]
  by (simp add: stub_defs sendResults_def sm_defs backend_defs Let_def)

text \<open>
  C7. \<open>complete\<close> clears the state file first: \<open>clearState\<close> is the first event of the
  call, before any call on a backend, and the only call on \<open>StateManager\<close> in it, so the
  state file is absent afterwards; \<open>complete\<close> never changes \<open>disabled\<close>; and when completion
  fails on the upstream reporter and there is no fallback reporter, or it fails on the
  fallback reporter too, each failure is logged.
\<close>

theorem complete_clears_state_first:
  "(\<exists>rest. events_since g (snd (complete X q g)) = StateCall S_clearState # rest \<and>
            state_calls rest = []) \<and>
   stateFile (snd (complete X q g)) = None \<and>
   disabled (fst (complete X q g)) = disabled q \<and>
   (\<not> disabled q \<and> upstreamReporter q = Some u \<and> fst (r_complete X u) \<noteq> None \<and>
    (fallbackReporter q = None \<or>
     (\<exists>b. fallbackReporter q = Some b \<and>
        fst (r_complete X (if useFallback q then b
               else r_setTestResults X (r_getTestResults X (snd (r_complete X u))) b)) \<noteq> None)) \<longrightarrow>
    LogError msg_complete_upstream \<in> set (events_since g (snd (complete X q g))) \<and>
    (fallbackReporter q \<noteq> None \<longrightarrow>
       LogError msg_complete_fallback \<in> set (events_since g (snd (complete X q g)))))"
proof -
  have a: "(\<exists>rest. events_since g (snd (complete X q g)) = StateCall S_clearState # rest \<and>
            state_calls rest = []) \<and>
     stateFile (snd (complete X q g)) = None \<and>
     disabled (fst (complete X q g)) = disabled q"
    by (simp add: complete_def sm_defs backend_defs events_since_def state_calls_def Let_def
        split: option.splits)
  have b: "\<not> disabled q \<and> upstreamReporter q = Some u \<and> fst (r_complete X u) \<noteq> None \<and>
    (fallbackReporter q = None \<or>
     (\<exists>b. fallbackReporter q = Some b \<and>
        fst (r_complete X (if useFallback q then b
               else r_setTestResults X (r_getTestResults X (snd (r_complete X u))) b)) \<noteq> None)) \<longrightarrow>
    LogError msg_complete_upstream \<in> set (events_since g (snd (complete X q g))) \<and>
    (fallbackReporter q \<noteq> None \<longrightarrow>
       LogError msg_complete_fallback \<in> set (events_since g (snd (complete X q g))))"
    by (auto simp: complete_def sm_defs backend_defs events_since_def Let_def split: option.splits)
  from a b show ?thesis by blast
qed

theorem complete_clears_state_first_witness:
  "\<not> disabled (facade (Some down) (Some down)) \<and>
   fst (r_complete stubs down) \<noteq> None \<and>
   events_since g_started (snd (complete stubs (facade (Some down) (Some down)) g_started)) =
     [StateCall S_clearState, BackendCall Upstream M_complete, LogError msg_complete_upstream,
      BackendCall Upstream M_getTestResults, BackendCall Fallback (M_setTestResults []),
      BackendCall Fallback M_complete, LogError msg_complete_fallback] \<and>
   stateFile (snd (complete stubs (facade (Some down) (Some down)) g_started)) = None \<and>
   \<not> disabled (fst (complete stubs (facade (Some down) (Some down)) g_started))"
  using complete_clears_state_first[of g_started stubs "facade (Some down) (Some down)" down]
  by (simp add: stub_defs complete_def sm_defs backend_defs events_since_def Let_def)

subsection \<open>\<open>publish\<close>\<close>

text \<open>
  C2 (\<open>publish\<close> and the state file). Claimed: after every \<open>publish\<close> the state file is
  absent, also when the upstream \<open>publish\<close> fails and there is no fallback reporter. On
  that path the method returns before its last statement, \<open>StateManager.clearState()\<close>:
  evaluated here with a failing upstream reporter and no fallback reporter, the state file
  exists before and after the call, and holds \<open>Mode = off\<close>. The sibling path on which the
  fallback reporter exists and fails too writes \<open>Mode = off\<close> and then clears the file
  (\<open>publish_clears_state_otherwise\<close>).
\<close>

theorem publish_without_fallback_keeps_state:
  "fst (r_publish stubs down) \<noteq> None \<and>
   isStateExists (stateFile g_started) \<and>
   isStateExists (stateFile (snd (snd (publish stubs (facade (Some down) None) g_started)))) \<and>
   stateFile (snd (snd (publish stubs (facade (Some down) None) g_started))) =
     Some \<lparr>RunId = None, Mode = Some ModeEnum_off, IsModeChanged = Some True\<rparr> \<and>
   events_since g_started (snd (snd (publish stubs (facade (Some down) None) g_started))) =
     [AwaitStartTestRunOperation, LogDebug msg_publishing, BackendCall Upstream M_publish,
      LogError msg_publish_upstream, StateCall (S_setMode (Some ModeEnum_off))]"
  by (simp add: publish_def stub_defs sm_defs call_defs events_since_def Let_def)

lemma publish_clears_state_otherwise:
  assumes "disabled q \<or>
           ((\<forall>e. startTestRunOperation q \<noteq> Some (Rejected e)) \<and>
            \<not> (\<exists>u. upstreamReporter q = Some u \<and> fst (r_publish X u) \<noteq> None \<and> fallbackReporter q = None))"
  shows "stateFile (snd (snd (publish X q g))) = None"
proof (cases "disabled q")
  case True
  then show ?thesis by (simp add: publish_def sm_defs)
next
  case False
  with assms have "\<forall>e. startTestRunOperation q \<noteq> Some (Rejected e)"
    and "\<not> (\<exists>u. upstreamReporter q = Some u \<and> fst (r_publish X u) \<noteq> None \<and> fallbackReporter q = None)"
    by simp_all
  with False show ?thesis
    by (simp add: publish_def publishFallback_def await_not_rejected sm_defs backend_defs Let_def
        split: option.splits) auto
qed

subsection \<open>The order of the calls in \<open>sendResults\<close> and \<open>publish\<close>\<close>

text \<open>
  C3, as claimed: in every \<open>publish\<close> and \<open>sendResults\<close> that is not a no-op the upstream
  reporter is tried first and the fallback reporter only after the upstream attempt failed.
  It fails for \<open>publish\<close> on a facade that has switched to the fallback
  (\<open>useFallback = true\<close>, as after a failover in \<open>addTestResult\<close>): \<open>publish\<close> then calls
  the fallback's \<open>publish\<close> first, by its test of \<open>useFallback\<close>, and here no upstream call
  has failed at all.
\<close>

theorem publish_fallback_first_counterexample:
  "\<not> disabled ((facade (Some up) (Some up))\<lparr>useFallback := True\<rparr>) \<and>
   fst (r_publish stubs up) = None \<and>
   calls_of M_publish (events_since g_started
      (snd (snd (publish stubs ((facade (Some up) (Some up))\<lparr>useFallback := True\<rparr>) g_started)))) =
     [BackendCall Fallback M_publish, BackendCall Upstream M_publish]"
  by (simp add: publish_def publishFallback_def stub_defs sm_defs call_defs events_since_def calls_of_def Let_def)

lemma sendResults_order:
  assumes "\<not> disabled q"
  shows "calls_of M_sendResults (events_since g (snd (sendResults X q g))) =
        (case upstreamReporter q of
           None \<Rightarrow> []
         | Some u \<Rightarrow> BackendCall Upstream M_sendResults #
             (if fst (r_sendResults X u) \<noteq> None \<and> fallbackReporter q \<noteq> None
              then [BackendCall Fallback M_sendResults] else []))"
  using assms
  by (simp add: sendResults_def sm_defs backend_defs events_since_def calls_of_def Let_def
        split: option.splits) auto

lemma publish_order:
  assumes "\<not> disabled q" "\<not> useFallback q" "\<forall>e. startTestRunOperation q \<noteq> Some (Rejected e)"
  shows "calls_of M_publish (events_since g (snd (snd (publish X q g)))) =
        (case upstreamReporter q of
           None \<Rightarrow> []
         | Some u \<Rightarrow> BackendCall Upstream M_publish #
             (if fst (r_publish X u) \<noteq> None \<and> fallbackReporter q \<noteq> None
              then [BackendCall Fallback M_publish] else []))"
  using assms
  by (simp add: publish_def publishFallback_def await_not_rejected sm_defs backend_defs events_since_def calls_of_def Let_def
        split: option.splits) auto

text \<open>Every step only appends to the trace.\<close>

lemma await_upstream_appends:
  "\<exists>evs. trace (snd (snd (await_upstream f m q g))) = trace g @ evs"
  by (simp add: await_upstream_def emit_def split: option.splits)

lemma migrate_appends: "\<exists>evs. trace (snd (migrate X q g)) = trace g @ evs"
  by (simp add: migrate_def emit_def split: option.splits)

lemma publishFallback_appends: "\<exists>evs. trace (snd (publishFallback X q g)) = trace g @ evs"
  by (simp add: publishFallback_def await_fallback_def sm_defs split: option.splits)

lemma publishFallback_first:
  "fallbackReporter q = Some b \<Longrightarrow>
     \<exists>evs. trace (snd (publishFallback X q g)) = trace g @ BackendCall Fallback M_publish # evs"
  by (simp add: publishFallback_def await_fallback_def sm_defs split: option.splits)

lemma publish_gate:
  assumes "\<not> disabled q" "useFallback q" "fallbackReporter q = Some b"
    "\<forall>e. startTestRunOperation q \<noteq> Some (Rejected e)"
  shows "take 1 (calls_of M_publish (events_since g (snd (snd (publish X q g))))) =
        [BackendCall Fallback M_publish]"
proof -
  let ?g2 = "logDebug msg_publishing (emit AwaitStartTestRunOperation g)"
  obtain q3 g3 where pf: "publishFallback X q ?g2 = (q3, g3)" by (cases "publishFallback X q ?g2")
  from publishFallback_first[OF assms(3), of X ?g2] pf
  obtain e3 where t3: "trace g3 = trace g @ [AwaitStartTestRunOperation, LogDebug msg_publishing,
      BackendCall Fallback M_publish] @ e3"
    by (auto simp: sm_defs)
  obtain r4 q4 g4 where au: "await_upstream (r_publish X) M_publish q3 g3 = (r4, q4, g4)"
    by (cases "await_upstream (r_publish X) M_publish q3 g3") auto
  from await_upstream_appends[of "r_publish X" M_publish q3 g3] au
  obtain e4 where t4: "trace g4 = trace g3 @ e4" by auto
  let ?g5 = "logError msg_publish_upstream g4"
  obtain q6 g6 where mg: "migrate X q4 ?g5 = (q6, g6)" by (cases "migrate X q4 ?g5")
  from migrate_appends[of X q4 ?g5] mg obtain e6 where t6: "trace g6 = trace g4 @ LogError msg_publish_upstream # e6"
    by (auto simp: sm_defs)
  obtain q7 g7 where pf2: "publishFallback X q6 g6 = (q7, g7)" by (cases "publishFallback X q6 g6")
  from publishFallback_appends[of X q6 g6] pf2 obtain e7 where t7: "trace g7 = trace g6 @ e7" by auto
  have "\<exists>rest. trace (snd (snd (publish X q g))) =
          trace g @ [AwaitStartTestRunOperation, LogDebug msg_publishing, BackendCall Fallback M_publish] @ rest"
    using assms pf au mg pf2 t3 t4 t6 t7
    by (cases r4) (simp_all add: publish_def await_not_rejected Let_def sm_defs)
  then obtain rest where "trace (snd (snd (publish X q g))) =
          trace g @ [AwaitStartTestRunOperation, LogDebug msg_publishing, BackendCall Fallback M_publish] @ rest"
    by blast
  then show ?thesis by (simp add: events_since_def calls_of_def)
qed

text \<open>
  C3, amended. In every \<open>sendResults\<close> of a facade that is not disabled, and in every
  \<open>publish\<close> of a facade that is not disabled, has not switched to the fallback and whose
  start of run is not rejected, the calls of the operation are: none if there is no
  upstream reporter; else the upstream's, first; followed by the fallback's, once, exactly
  when the upstream's failed and a fallback reporter exists. A \<open>publish\<close> of a facade that
  has switched to the fallback calls the fallback's \<open>publish\<close> first.
\<close>

theorem failover_order:
  "(\<not> disabled q \<longrightarrow>
      calls_of M_sendResults (events_since g (snd (sendResults X q g))) =
        (case upstreamReporter q of
           None \<Rightarrow> []
         | Some u \<Rightarrow> BackendCall Upstream M_sendResults #
             (if fst (r_sendResults X u) \<noteq> None \<and> fallbackReporter q \<noteq> None
              then [BackendCall Fallback M_sendResults] else []))) \<and>
   (\<not> disabled q \<and> \<not> useFallback q \<and> (\<forall>e. startTestRunOperation q \<noteq> Some (Rejected e)) \<longrightarrow>
      calls_of M_publish (events_since g (snd (snd (publish X q g)))) =
        (case upstreamReporter q of
           None \<Rightarrow> []
         | Some u \<Rightarrow> BackendCall Upstream M_publish #
             (if fst (r_publish X u) \<noteq> None \<and> fallbackReporter q \<noteq> None
              then [BackendCall Fallback M_publish] else []))) \<and>
   (\<not> disabled q \<and> useFallback q \<and> fallbackReporter q \<noteq> None \<and>
    (\<forall>e. startTestRunOperation q \<noteq> Some (Rejected e)) \<longrightarrow>
      take 1 (calls_of M_publish (events_since g (snd (snd (publish X q g))))) =
        [BackendCall Fallback M_publish])"
  using sendResults_order[of q g X] publish_order[of q g X] publish_gate[of q _ g X]
  by auto

theorem failover_order_witness:
  "\<not> disabled (facade (Some down) (Some up)) \<and> \<not> useFallback (facade (Some down) (Some up)) \<and>
   (\<forall>e. startTestRunOperation (facade (Some down) (Some up)) \<noteq> Some (Rejected e)) \<and>
   calls_of M_sendResults (events_since g_started (snd (sendResults stubs (facade (Some down) (Some up)) g_started))) =
     [BackendCall Upstream M_sendResults, BackendCall Fallback M_sendResults] \<and>
   calls_of M_publish (events_since g_started (snd (snd (publish stubs (facade (Some down) (Some up)) g_started)))) =
     [BackendCall Upstream M_publish, BackendCall Fallback M_publish] \<and>
   useFallback ((facade (Some up) (Some up))\<lparr>useFallback := True\<rparr>) \<and>
   fallbackReporter ((facade (Some up) (Some up))\<lparr>useFallback := True\<rparr>) \<noteq> None \<and>
   take 1 (calls_of M_publish (events_since g_started
      (snd (snd (publish stubs ((facade (Some up) (Some up))\<lparr>useFallback := True\<rparr>) g_started))))) =
     [BackendCall Fallback M_publish]"
  using failover_order[of "facade (Some down) (Some up)" g_started stubs]
    failover_order[of "(facade (Some up) (Some up))\<lparr>useFallback := True\<rparr>" g_started stubs]
  by (simp add: stub_defs)

subsection \<open>Failover in \<open>addTestResult\<close>\<close>

text \<open>
  \<open>useFallback\<close> is never reset, and while it is set no result is delivered to the
  upstream reporter, in any sequence of calls.
\<close>

lemma migrate_useFallback: "useFallback q \<Longrightarrow> migrate X q g = (q, g)"
  by (simp add: migrate_def)

lemma uf_addTestResult:
  "useFallback q \<Longrightarrow> useFallback (fst (snd (addTestResult X r q g))) \<and>
     upstream_adds (trace (snd (snd (addTestResult X r q g)))) = upstream_adds (trace g)"
  by (simp add: addTestResult_def addTestResultToFallback_def upstream_adds_def
        sm_defs call_defs Let_def split: option.splits promise.splits prod.splits)

lemma uf_startTestRun:
  "useFallback q \<Longrightarrow> useFallback (fst (startTestRun X q g)) \<and>
     upstream_adds (trace (snd (startTestRun X q g))) = upstream_adds (trace g)"
  by (simp add: startTestRun_def upstream_adds_def
        sm_defs Let_def split: option.splits sum.splits)

lemma uf_sendResults:
  "useFallback q \<Longrightarrow> useFallback (fst (sendResults X q g)) \<and>
     upstream_adds (trace (snd (sendResults X q g))) = upstream_adds (trace g)"
  by (simp add: sendResults_def upstream_adds_def migrate_useFallback await_upstream_def await_fallback_def
        sm_defs Let_def split: option.splits prod.splits)

lemma uf_complete:
  "useFallback q \<Longrightarrow> useFallback (fst (complete X q g)) \<and>
     upstream_adds (trace (snd (complete X q g))) = upstream_adds (trace g)"
  by (simp add: complete_def upstream_adds_def migrate_useFallback await_upstream_def await_fallback_def
        sm_defs Let_def split: option.splits prod.splits)

lemma upstream_adds_emit:
  "upstream_adds (trace (emit e g)) = upstream_adds (trace g) @ (if is_upstream_add e then [e] else [])"
  by (simp add: upstream_adds_def emit_def)

lemma upstream_adds_glob [simp]:
  "upstream_adds (trace (StateManager_setMode m g)) = upstream_adds (trace g)"
  "upstream_adds (trace (StateManager_clearState g)) = upstream_adds (trace g)"
  "upstream_adds (trace (logError msg g)) = upstream_adds (trace g)"
  "upstream_adds (trace (logDebug msg g)) = upstream_adds (trace g)"
  by (simp_all add: sm_defs upstream_adds_def)

lemma await_startD:
  "await_startTestRunOperation q g = (r, g') \<Longrightarrow> upstream_adds (trace g') = upstream_adds (trace g)"
  by (auto simp: await_startTestRunOperation_def upstream_adds_emit split: option.splits promise.splits)

lemma await_upstreamD:
  "await_upstream f m q g = (r, q', g') \<Longrightarrow> \<not> is_upstream_add (BackendCall Upstream m) \<Longrightarrow>
     useFallback q' = useFallback q \<and> upstream_adds (trace g') = upstream_adds (trace g)"
  by (auto simp: await_upstream_def upstream_adds_emit split: option.splits)

lemma publishFallbackD:
  "publishFallback X q g = (q', g') \<Longrightarrow> 
     useFallback q' = useFallback q \<and> upstream_adds (trace g') = upstream_adds (trace g)"
  by (auto simp: publishFallback_def await_fallback_def upstream_adds_emit split: option.splits prod.splits)

lemma uf_publish:
  "useFallback q \<Longrightarrow> useFallback (fst (snd (publish X q g))) \<and>
     upstream_adds (trace (snd (snd (publish X q g)))) = upstream_adds (trace g)"
proof -
  assume u: "useFallback q"
  show ?thesis
  proof (cases "disabled q")
    case True
    then show ?thesis using u by (simp add: publish_def)
  next
    case False
    obtain r g1 where a: "await_startTestRunOperation q g = (r, g1)"
      by (cases "await_startTestRunOperation q g")
    note g1 = await_startD[OF a]
    show ?thesis
    proof (cases r)
      case (Some e)
      then show ?thesis using u False a g1 by (simp add: publish_def)
    next
      case None
      obtain q3 g3 where pf: "publishFallback X q (logDebug msg_publishing g1) = (q3, g3)"
        by (cases "publishFallback X q (logDebug msg_publishing g1)")
      from publishFallbackD[OF pf] u g1
      have u3: "useFallback q3" and g3: "upstream_adds (trace g3) = upstream_adds (trace g)" by simp_all
      obtain r4 q4 g4 where au: "await_upstream (r_publish X) M_publish q3 g3 = (r4, q4, g4)"
        by (cases "await_upstream (r_publish X) M_publish q3 g3") auto
      from await_upstreamD[OF au] u3 g3
      have u4: "useFallback q4" and g4: "upstream_adds (trace g4) = upstream_adds (trace g)" by simp_all
      obtain q7 g7 where pf2: "publishFallback X q4
          (logError msg_publish_upstream g4) = (q7, g7)"
        by (cases "publishFallback X q4
          (logError msg_publish_upstream g4)")
      from publishFallbackD[OF pf2] u4 g4
      have u7: "useFallback q7" and g7: "upstream_adds (trace g7) = upstream_adds (trace g)" by simp_all
      show ?thesis using False None a u pf au pf2 u4 g4 u7 g7
        by (cases r4) (simp_all add: publish_def Let_def migrate_useFallback)
    qed
  qed
qed

lemma uf_setTestResults:
  "useFallback q \<Longrightarrow> useFallback (fst (setTestResults X rs q g)) \<and>
     upstream_adds (trace (snd (setTestResults X rs q g))) = upstream_adds (trace g)"
  by (simp add: setTestResults_def upstream_adds_def sm_defs split: option.splits)

lemma uf_getResults:
  "upstream_adds (trace (snd (getResults X q g))) = upstream_adds (trace g)"
  by (simp add: getResults_def upstream_adds_def sm_defs split: option.splits)

lemma uf_startTestRunAsync:
  "useFallback q \<Longrightarrow> useFallback (fst (snd (startTestRunAsync X q g))) \<and>
     upstream_adds (trace (snd (snd (startTestRunAsync X q g)))) = upstream_adds (trace g)"
proof -
  assume u: "useFallback q"
  obtain q1 g1 where s: "startTestRun X q g = (q1, g1)" by (cases "startTestRun X q g")
  from uf_startTestRun[OF u, of X g] s
  have "useFallback q1" and "upstream_adds (trace g1) = upstream_adds (trace g)" by simp_all
  then show ?thesis
    by (simp add: startTestRunAsync_def s await_startTestRunOperation_def upstream_adds_def emit_def
        split: option.splits promise.splits)
qed

lemma perform_useFallback:
  "useFallback q \<Longrightarrow>
     useFallback (fst (perform X c (q, g))) \<and>
     upstream_adds (trace (snd (perform X c (q, g)))) = upstream_adds (trace g)"
  using uf_addTestResult[of q X _ g] uf_startTestRun[of q X g] uf_sendResults[of q X g]
    uf_complete[of q X g] uf_publish[of q X g] uf_setTestResults[of q X _ g]
    uf_getResults[of X q g] uf_startTestRunAsync[of q X g]
  by (cases c) (simp_all add: perform_def)

lemma run_useFallback:
  "useFallback q \<Longrightarrow>
     useFallback (fst (run X cs (q, g))) \<and>
     upstream_adds (trace (snd (run X cs (q, g)))) = upstream_adds (trace g)"
proof (induction cs arbitrary: q g)
  case Nil
  then show ?case by simp
next
  case (Cons c cs)
  obtain q' g' where p: "perform X c (q, g) = (q', g')" by (cases "perform X c (q, g)")
  from perform_useFallback[OF Cons.prems, of X c g] p
  have u: "useFallback q'" and t: "upstream_adds (trace g') = upstream_adds (trace g)"
    by simp_all
  from Cons.IH[OF u, of g'] t p show ?case by simp
qed

lemma addTestResult_direct:
  assumes "\<not> disabled q" "useFallback q" "\<forall>e. startTestRunOperation q \<noteq> Some (Rejected e)"
  shows "backend_calls (events_since g (snd (snd (addTestResult X r q g)))) =
           (case fallbackReporter q of None \<Rightarrow> [] | Some b \<Rightarrow> [BackendCall Fallback (M_addTestResult r)])"
  using assms
  by (simp add: addTestResult_def addTestResultToFallback_def await_not_rejected await_fallback_def
      sm_defs events_since_def backend_calls_def Let_def split: option.splits)

lemma addTestResult_failover_path:
  assumes "\<not> disabled q" "\<not> useFallback q" "\<forall>e. startTestRunOperation q \<noteq> Some (Rejected e)"
    "upstreamReporter q = Some u" "fallbackReporter q = Some b"
    "fst (r_addTestResult X r u) \<noteq> None"
  shows "backend_calls (events_since g (snd (snd (addTestResult X r q g)))) =
           [BackendCall Upstream (M_addTestResult r), BackendCall Upstream M_getTestResults,
            BackendCall Fallback (M_setTestResults (r_getTestResults X (snd (r_addTestResult X r u)))),
            BackendCall Fallback (M_addTestResult r)]"
    and "useFallback (fst (snd (addTestResult X r q g)))"
    and "startTestRunOperation (fst (snd (addTestResult X r q g))) = startTestRunOperation q"
    and "fallbackReporter (fst (snd (addTestResult X r q g))) =
           Some (snd (r_addTestResult X r
             (r_setTestResults X (r_getTestResults X (snd (r_addTestResult X r u))) b)))"
    and "disabled (fst (snd (addTestResult X r q g))) =
           (fst (r_addTestResult X r
             (r_setTestResults X (r_getTestResults X (snd (r_addTestResult X r u))) b)) \<noteq> None)"
    and "fst (r_addTestResult X r
             (r_setTestResults X (r_getTestResults X (snd (r_addTestResult X r u))) b)) = None \<Longrightarrow>
         stateFile (snd (snd (addTestResult X r q g))) = setMode (fallback (options q)) (stateFile g)"
  using assms
  by (auto simp: addTestResult_def addTestResultToFallback_def await_not_rejected backend_defs
      sm_defs events_since_def backend_calls_def Let_def split: option.splits)

text \<open>
  C4. When \<open>addTestResult\<close> fails on the upstream reporter and a fallback reporter exists
  (facade enabled, not yet switched, start of run not rejected): the calls on the backends
  are, in this order, the failed delivery to the upstream, the read of the upstream's
  buffer, \<open>setTestResults\<close> of exactly that buffer on the fallback, and the delivery of the
  result to the fallback, which so receives it on top of the migrated buffer;
  \<open>useFallback\<close> is true afterwards; if the fallback accepts the result, the facade stays
  enabled, the state file holds the fallback selector as \<open>Mode\<close> (with \<open>IsModeChanged\<close>), and
  the next \<open>addTestResult\<close> calls the fallback only; and in every later sequence of calls no
  result is delivered to the upstream reporter again.
\<close>

theorem addTestResult_failover:
  assumes "\<not> disabled q" and "\<not> useFallback q"
    and "\<forall>e. startTestRunOperation q \<noteq> Some (Rejected e)"
    and "upstreamReporter q = Some u" and "fallbackReporter q = Some b"
    and "fst (r_addTestResult X r u) \<noteq> None"
  shows "backend_calls (events_since g (snd (snd (addTestResult X r q g)))) =
           [BackendCall Upstream (M_addTestResult r), BackendCall Upstream M_getTestResults,
            BackendCall Fallback (M_setTestResults (r_getTestResults X (snd (r_addTestResult X r u)))),
            BackendCall Fallback (M_addTestResult r)] \<and>
         fallbackReporter (fst (snd (addTestResult X r q g))) =
           Some (snd (r_addTestResult X r
             (r_setTestResults X (r_getTestResults X (snd (r_addTestResult X r u))) b))) \<and>
         useFallback (fst (snd (addTestResult X r q g))) \<and>
         (fst (r_addTestResult X r
             (r_setTestResults X (r_getTestResults X (snd (r_addTestResult X r u))) b)) = None \<longrightarrow>
            \<not> disabled (fst (snd (addTestResult X r q g))) \<and>
            (\<exists>s. stateFile (snd (snd (addTestResult X r q g))) = Some s \<and>
                 Mode s = fallback (options q) \<and> IsModeChanged s = Some True) \<and>
            (\<forall>r' g'. backend_calls (events_since g'
                        (snd (snd (addTestResult X r' (fst (snd (addTestResult X r q g))) g')))) =
                      [BackendCall Fallback (M_addTestResult r')])) \<and>
         (\<forall>cs. upstream_adds (trace (snd (run X cs (snd (addTestResult X r q g))))) =
               upstream_adds (trace (snd (snd (addTestResult X r q g)))))"
proof -
  obtain q' g' where s: "snd (addTestResult X r q g) = (q', g')"
    by (cases "snd (addTestResult X r q g)")
  note p = addTestResult_failover_path[OF assms, of g]
  from p(2) s have u: "useFallback q'" by simp
  have direct: "\<forall>r' g2. backend_calls (events_since g2 (snd (snd (addTestResult X r' q' g2)))) =
                      [BackendCall Fallback (M_addTestResult r')]"
    if ok: "fst (r_addTestResult X r
             (r_setTestResults X (r_getTestResults X (snd (r_addTestResult X r u))) b)) = None"
  proof (intro allI)
    fix r' g2
    from p(5) ok s have d: "\<not> disabled q'" by simp
    from p(3) s assms(3) have o: "\<forall>e. startTestRunOperation q' \<noteq> Some (Rejected e)" by simp
    from p(4) s obtain b' where f: "fallbackReporter q' = Some b'" by simp
    from addTestResult_direct[OF d u o, of g2 X r'] f
    show "backend_calls (events_since g2 (snd (snd (addTestResult X r' q' g2)))) =
                      [BackendCall Fallback (M_addTestResult r')]" by simp
  qed
  have later: "\<forall>cs. upstream_adds (trace (snd (run X cs (q', g')))) = upstream_adds (trace g')"
    using run_useFallback[OF u] by simp
  have st: "\<exists>s. stateFile g' = Some s \<and> Mode s = fallback (options q) \<and> IsModeChanged s = Some True"
    if ok: "fst (r_addTestResult X r
             (r_setTestResults X (r_getTestResults X (snd (r_addTestResult X r u))) b)) = None"
    using p(6)[OF ok] s by (simp add: setMode_def Let_def)
  from p(1) p(2) p(4) p(5) s direct later st show ?thesis by simp
qed

theorem addTestResult_failover_witness:
  "\<not> disabled (facade (Some down_after_T1) (Some up)) \<and>
   \<not> useFallback (facade (Some down_after_T1) (Some up)) \<and>
   fst (r_addTestResult stubs T2 down_after_T1) \<noteq> None \<and>
   backend_calls (events_since g_started
       (snd (snd (addTestResult stubs T2 (facade (Some down_after_T1) (Some up)) g_started)))) =
     [BackendCall Upstream (M_addTestResult T2), BackendCall Upstream M_getTestResults,
      BackendCall Fallback (M_setTestResults [T1]), BackendCall Fallback (M_addTestResult T2)] \<and>
   fallbackReporter (fst (snd (addTestResult stubs T2 (facade (Some down_after_T1) (Some up)) g_started))) =
     Some \<lparr>buffer = [T1, T2], failing = False\<rparr> \<and>
   useFallback (fst (snd (addTestResult stubs T2 (facade (Some down_after_T1) (Some up)) g_started))) \<and>
   \<not> disabled (fst (snd (addTestResult stubs T2 (facade (Some down_after_T1) (Some up)) g_started))) \<and>
   stateFile (snd (snd (addTestResult stubs T2 (facade (Some down_after_T1) (Some up)) g_started))) =
     Some \<lparr>RunId = None, Mode = Some ModeEnum_report, IsModeChanged = Some True\<rparr> \<and>
   backend_calls (events_since g_started
       (snd (snd (addTestResult stubs T1
          (fst (snd (addTestResult stubs T2 (facade (Some down_after_T1) (Some up)) g_started)))
          g_started)))) = [BackendCall Fallback (M_addTestResult T1)]"
  using addTestResult_failover[of "facade (Some down_after_T1) (Some up)" down_after_T1 up stubs T2 g_started]
  by (simp add: stub_defs down_after_T1_def addTestResult_def addTestResultToFallback_def
      await_startTestRunOperation_def backend_defs sm_defs events_since_def backend_calls_def Let_def)

end
